theory Spec2Isabelle
  imports Main "HOL-Library.AList"
begin

section \<open>Values, dictionaries and errors\<close>

text \<open>
  A shallow embedding of \<^verbatim>\<open>src/ias/simple_cdk.py\<close>. Functions keep their names, without
  the leading underscore of the helpers; a local variable whose name is also a field is
  written with a prime. A function that may raise returns \<open>error + 'a\<close>; a function that
  copies or writes the context dictionary takes the store and returns it. The calls of
  the logger have no part in any result and are left out.

  Context data is \<^verbatim>\<open>dict[str, Any]\<close>: what a TOML file or a literal can hold.
  \<open>PNone\<close> is Python's \<^verbatim>\<open>None\<close>. A dictionary is its item list in insertion
  order; \<open>map_of\<close> reads a key, \<open>AList.update\<close> is \<^verbatim>\<open>d[k] = v\<close> (an existing key keeps
  its place, a new key goes last).
\<close>

datatype pyval =
    PNone
  | PBool bool
  | PInt int
  | PStr string
  | PList "pyval list"
  | PDict "(string \<times> pyval) list"

type_synonym dict = "(string \<times> pyval) list"

datatype error =
    KeyError string
  | IndexError
  | AttributeError
  | TOMLDecodeError
  | OSError

text \<open>\<^verbatim>\<open>d.get(k)\<close>: the value, or \<^verbatim>\<open>None\<close> for a missing key.\<close>

definition dict_get :: "dict \<Rightarrow> string \<Rightarrow> pyval" where
  "dict_get d k = (case map_of d k of None \<Rightarrow> PNone | Some v \<Rightarrow> v)"

text \<open>\<^verbatim>\<open>d.update(other)\<close>: \<^verbatim>\<open>d[k] = v\<close> for every item of \<open>other\<close>, in its order.\<close>

definition dict_update :: "dict \<Rightarrow> dict \<Rightarrow> dict" where
  "dict_update d other = fold (\<lambda>(k, v). AList.update k v) other d"

section \<open>The accessor for context data\<close>

text \<open>
  Modelled from the spec: the provisioning toolkit's construct tree, which is not code of
  this repository. A construct holds its own context mapping and its enclosing scope;
  \<^verbatim>\<open>scope.node.try_get_context(key)\<close> reads the nearest mapping that has the key, from the
  construct outwards, and gives \<^verbatim>\<open>None\<close> when none has it.
\<close>

datatype Construct = Construct (node_context: dict) (node_scope: "Construct option")

fun try_get_context :: "Construct \<Rightarrow> string \<Rightarrow> pyval" where
  "try_get_context (Construct ctx outer) k =
     (case map_of ctx k of
        Some v \<Rightarrow> v
      | None \<Rightarrow> (case outer of None \<Rightarrow> PNone | Some p \<Rightarrow> try_get_context p k))"

text \<open>The parameter \<^verbatim>\<open>key: str | List[str]\<close>.\<close>

datatype key = Key string | Keys "string list"

text \<open>
  The loop \<^verbatim>\<open>for k in key[1:]\<close> of \<^verbatim>\<open>get_context_data\<close>: it stops at \<^verbatim>\<open>None\<close>, and
  \<^verbatim>\<open>context.get(k)\<close> exists on a dictionary only: on a string, a number, a boolean or a
  list Python raises AttributeError.
\<close>

fun get_context_loop :: "pyval \<Rightarrow> string list \<Rightarrow> error + pyval" where
  "get_context_loop context [] = Inr context"
| "get_context_loop context (k # ks) =
     (case context of
        PNone \<Rightarrow> Inr PNone
      | PDict d \<Rightarrow> get_context_loop (dict_get d k) ks
      | _ \<Rightarrow> Inl AttributeError)"

text \<open>\<^verbatim>\<open>key[0]\<close> of an empty list raises IndexError.\<close>

definition get_context_data :: "Construct \<Rightarrow> key \<Rightarrow> error + pyval" where
  "get_context_data scope key =
     (case key of
        Key k \<Rightarrow> Inr (try_get_context scope k)
      | Keys [] \<Rightarrow> Inl IndexError
      | Keys (k # ks) \<Rightarrow> get_context_loop (try_get_context scope k) ks)"

section \<open>Stack names\<close>

definition make_stack_name :: "string \<Rightarrow> string \<Rightarrow> string \<Rightarrow> string" where
  "make_stack_name prefix ident env_name' =
     (if ident = ''default'' \<and> prefix \<noteq> '''' then prefix
      else if prefix = '''' then ident
      else if env_name' = '''' then prefix @ ''-'' @ ident
      else prefix @ ''-'' @ ident @ ''-'' @ env_name')"

section \<open>Options and the store of context dictionaries\<close>

text \<open>
  The \<^verbatim>\<open>TypedDict\<close> classes are declared \<^verbatim>\<open>total=False\<close> and the code reads them with
  \<^verbatim>\<open>.get\<close>, so every key may be missing: a field is \<open>None\<close> when its key is missing.
  \<open>account\<close> and \<open>region\<close> may also be present and hold Python's \<^verbatim>\<open>None\<close>, which is what
  \<^verbatim>\<open>os.getenv\<close> gives for an unset variable: the inner \<open>None\<close>. The keys \<^verbatim>\<open>name\<close> and
  \<^verbatim>\<open>id\<close> are written \<open>env_name\<close>, \<open>stack_name\<close> and \<open>stack_id\<close>.
\<close>

record EnvironmentOptions =
  env_name :: "string option"
  account :: "string option option"
  region :: "string option option"

record StackInfoOptions =
  stack_id :: "string option"
  stack_name :: "string option"
  depends_on :: "string list option"

text \<open>
  The context dictionary is the one object of the options that the code may write to
  through a second name (\<^verbatim>\<open>options.get("context", {})\<close> gives the dictionary itself, not a
  copy), so it lives in a store and the options hold its address. Every other part of the
  argument is only read; the writes go to the copy the processor made.
\<close>

type_synonym ref = nat

record heap =
  cells :: "ref \<Rightarrow> dict"
  lim :: ref

definition empty_heap :: heap where
  "empty_heap = \<lparr>cells = (\<lambda>_. []), lim = 0\<rparr>"

text \<open>A new dictionary object: the next free address.\<close>

definition new_dict :: "heap \<Rightarrow> dict \<Rightarrow> heap \<times> ref" where
  "new_dict h d = (h\<lparr>cells := (cells h)(lim h := d), lim := Suc (lim h)\<rparr>, lim h)"

text \<open>A write to the dictionary object at an address.\<close>

definition put_dict :: "heap \<Rightarrow> ref \<Rightarrow> dict \<Rightarrow> heap" where
  "put_dict h r d = h\<lparr>cells := (cells h)(r := d)\<rparr>"

record IasModelOptions =
  deployment_name :: "string option"
  stacks :: "StackInfoOptions list option"
  environment :: "EnvironmentOptions option"
  context_ref :: "ref option"
  tags :: "(string \<times> string) list option"

text \<open>\<^verbatim>\<open>copy.deepcopy(options)\<close>: equal values, and a new object for the context dictionary.\<close>

definition deepcopy :: "heap \<Rightarrow> IasModelOptions \<Rightarrow> heap \<times> IasModelOptions" where
  "deepcopy h options =
     (case context_ref options of
        None \<Rightarrow> (h, options)
      | Some r \<Rightarrow> (let (h', r') = new_dict h (cells h r) in (h', options\<lparr>context_ref := Some r'\<rparr>)))"

text \<open>The context dictionary of an options record, read through the store.\<close>

definition context_of :: "heap \<Rightarrow> IasModelOptions \<Rightarrow> dict option" where
  "context_of h options = map_option (cells h) (context_ref options)"

text \<open>\<^verbatim>\<open>d.get(k)\<close> on a key that may be missing or hold \<^verbatim>\<open>None\<close>.\<close>

definition py_get :: "'a option option \<Rightarrow> 'a option" where
  "py_get f = (case f of None \<Rightarrow> None | Some v \<Rightarrow> v)"

text \<open>
  \<^verbatim>\<open>options.get("deployment_name", "")\<close>, \<^verbatim>\<open>options.get("environment", {})\<close> and
  \<^verbatim>\<open>options.get("environment", {}).get("name", "")\<close>.
\<close>

definition get_deployment_name :: "IasModelOptions \<Rightarrow> string" where
  "get_deployment_name options = (case deployment_name options of None \<Rightarrow> '''' | Some d \<Rightarrow> d)"

definition get_environment :: "IasModelOptions \<Rightarrow> EnvironmentOptions" where
  "get_environment options =
     (case environment options of
        None \<Rightarrow> \<lparr>env_name = None, account = None, region = None\<rparr>
      | Some e \<Rightarrow> e)"

definition get_env_name :: "IasModelOptions \<Rightarrow> string" where
  "get_env_name options =
     (case environment options of
        None \<Rightarrow> ''''
      | Some e \<Rightarrow> (case env_name e of None \<Rightarrow> '''' | Some n \<Rightarrow> n))"

section \<open>Option processors\<close>

text \<open>
  The process environment \<^verbatim>\<open>os.environ\<close> and the files of the working directory are
  inputs: a list of variables, and a list of file names with what opening and parsing the
  file gives. A name that is not listed is a file that does not exist.
\<close>

type_synonym environ = "(string \<times> string) list"

datatype toml_file = Toml dict | Malformed | Unreadable

type_synonym files = "(string \<times> toml_file) list"

definition getenv :: "environ \<Rightarrow> string \<Rightarrow> string option" where
  "getenv vars k = map_of vars k"

definition set_env_account_region_from_env_vars ::
    "environ \<Rightarrow> heap \<Rightarrow> IasModelOptions \<Rightarrow> heap \<times> IasModelOptions" where
  "set_env_account_region_from_env_vars vars h options =
     (let (h', new_options) = deepcopy h options;
          env = get_environment new_options;
          env = (if py_get (account env) = None
                 then env\<lparr>account := Some (getenv vars ''CDK_DEFAULT_ACCOUNT'')\<rparr> else env);
          env = (if py_get (region env) = None
                 then env\<lparr>region := Some (getenv vars ''CDK_DEFAULT_REGION'')\<rparr> else env);
          env = (if env_name env = None then env\<lparr>env_name := Some ''''\<rparr> else env)
      in (h', new_options\<lparr>environment := Some env\<rparr>))"

definition set_default_stack_if_no_stacks ::
    "heap \<Rightarrow> IasModelOptions \<Rightarrow> heap \<times> IasModelOptions" where
  "set_default_stack_if_no_stacks h options =
     (let (h', new_options) = deepcopy h options;
          stacks' = (case stacks new_options of None \<Rightarrow> [] | Some ss \<Rightarrow> ss)
      in if length stacks' = 0
         then (let stack_info = \<lparr>stack_id = Some ''default'',
                                   stack_name = Some (get_deployment_name new_options),
                                   depends_on = Some []\<rparr>
               in (h', new_options\<lparr>stacks := Some (stacks' @ [stack_info])\<rparr>))
         else (h', new_options))"

text \<open>The body of the loop of \<^verbatim>\<open>set_stack_names\<close>, for one stack.\<close>

definition set_stack_name ::
    "string \<Rightarrow> string \<Rightarrow> StackInfoOptions \<Rightarrow> StackInfoOptions" where
  "set_stack_name deployment_name' env_name' stack_info =
     (let stack_id' = (case stack_id stack_info of None \<Rightarrow> ''default'' | Some i \<Rightarrow> i)
      in if stack_name stack_info = None
         then stack_info\<lparr>stack_name := Some (make_stack_name deployment_name' stack_id' env_name')\<rparr>
         else stack_info)"

definition set_stack_names :: "heap \<Rightarrow> IasModelOptions \<Rightarrow> heap \<times> IasModelOptions" where
  "set_stack_names h options =
     (let (h', new_options) = deepcopy h options;
          deployment_name' = get_deployment_name new_options;
          env_name' = get_env_name new_options;
          stacks' = (case stacks new_options of None \<Rightarrow> [] | Some ss \<Rightarrow> ss);
          stacks' = map (set_stack_name deployment_name' env_name') stacks'
      in (h', new_options\<lparr>stacks := Some stacks'\<rparr>))"

text \<open>The candidate file names, appended in the order of the source.\<close>

definition config_paths_of :: "string \<Rightarrow> string \<Rightarrow> string list" where
  "config_paths_of deployment_name' env_name' =
     (let config_paths = [];
          config_paths = (if env_name' \<noteq> ''''
                          then config_paths @ [env_name' @ ''.toml''] else config_paths);
          config_paths = (if deployment_name' \<noteq> ''''
                          then config_paths @ [deployment_name' @ ''.toml''] else config_paths);
          config_paths = (if deployment_name' \<noteq> '''' \<and> env_name' \<noteq> ''''
                          then config_paths @ [deployment_name' @ ''-'' @ env_name' @ ''.toml'']
                          else config_paths)
      in config_paths)"

text \<open>
  The loop over the candidate files. \<^verbatim>\<open>config_result.update(toml.load(f))\<close> writes to
  the dictionary object at \<open>config_result\<close>; only FileNotFoundError is caught, so a file
  that cannot be read or parsed ends the loop with its error, after the writes of the
  files before it.
\<close>

fun load_files :: "files \<Rightarrow> string list \<Rightarrow> heap \<Rightarrow> ref \<Rightarrow> heap \<times> error option" where
  "load_files fs [] h config_result = (h, None)"
| "load_files fs (config_path # rest) h config_result =
     (case map_of fs config_path of
        None \<Rightarrow> load_files fs rest h config_result
      | Some Unreadable \<Rightarrow> (h, Some OSError)
      | Some Malformed \<Rightarrow> (h, Some TOMLDecodeError)
      | Some (Toml d) \<Rightarrow>
          load_files fs rest (put_dict h config_result (dict_update (cells h config_result) d))
            config_result)"

text \<open>
  \<^verbatim>\<open>load_toml_config_files\<close> copies its argument after the loop, and reads
  \<^verbatim>\<open>config_result\<close> from the argument itself: the argument's own context dictionary when
  the key is there, a new empty dictionary otherwise. The result holds that same object.
\<close>

definition load_toml_config_files ::
    "files \<Rightarrow> heap \<Rightarrow> IasModelOptions \<Rightarrow> heap \<times> (error + IasModelOptions)" where
  "load_toml_config_files fs h options =
     (let deployment_name' = get_deployment_name options;
          env_name' = get_env_name options;
          config_paths = config_paths_of deployment_name' env_name';
          (h1, config_result) = (case context_ref options of
                                   None \<Rightarrow> new_dict h []
                                 | Some r \<Rightarrow> (h, r))
      in case load_files fs config_paths h1 config_result of
           (h2, Some e) \<Rightarrow> (h2, Inl e)
         | (h2, None) \<Rightarrow>
             (let (h3, new_options) = deepcopy h2 options
              in (h3, Inr (new_options\<lparr>context_ref := Some config_result\<rparr>))))"

definition simple_defaults ::
    "environ \<Rightarrow> heap \<Rightarrow> IasModelOptions \<Rightarrow> heap \<times> IasModelOptions" where
  "simple_defaults vars h options =
     (let (h, options) = set_env_account_region_from_env_vars vars h options;
          (h, options) = set_default_stack_if_no_stacks h options;
          (h, options) = set_stack_names h options
      in (h, options))"

definition simple_config_defaults ::
    "environ \<Rightarrow> files \<Rightarrow> heap \<Rightarrow> IasModelOptions \<Rightarrow> heap \<times> (error + IasModelOptions)" where
  "simple_config_defaults vars fs h options =
     (let (h, options) = simple_defaults vars h options
      in load_toml_config_files fs h options)"

section \<open>Building the model\<close>

text \<open>
  Modelled from the spec: the provisioning toolkit's environment, application and stack
  constructors and its tag operation (section 6 of the spec), which are not code of this
  repository. Each object records what its constructor was given; the application is the
  root construct holding the context mapping, and a stack is a construct under it. The
  constructors are taken to accept every argument, and a tag is an entry of the stack's
  tag list.
\<close>

record Environment =
  cdk_account :: "string option"
  cdk_region :: "string option"

record Stack =
  stack_app :: Construct
  construct_id :: string
  cdk_stack_name :: string
  stack_env :: Environment
  stack_tags :: "(string \<times> string) list"

definition stack_construct :: "Stack \<Rightarrow> Construct" where
  "stack_construct stack = Construct [] (Some (stack_app stack))"

record IasModel =
  model_deployment_name :: string
  app :: Construct
  model_stacks :: "(string \<times> Stack) list"
  current_environment :: "string \<times> Environment"

text \<open>\<^verbatim>\<open>opts["name"]\<close> raises KeyError when the key is missing.\<close>

definition create_environment :: "EnvironmentOptions \<Rightarrow> error + string \<times> Environment" where
  "create_environment opts =
     (let env = \<lparr>cdk_account = py_get (account opts), cdk_region = py_get (region opts)\<rparr>
      in case env_name opts of
           None \<Rightarrow> Inl (KeyError ''name'')
         | Some n \<Rightarrow> Inr (n, env))"

definition apply_stack_tags :: "Stack \<Rightarrow> (string \<times> string) list \<Rightarrow> Stack" where
  "apply_stack_tags stack tags' =
     fold (\<lambda>(k, v) s. s\<lparr>stack_tags := AList.update k v (stack_tags s)\<rparr>) tags' stack"

text \<open>
  An option processor is any callable from options to options; it may raise, and it may
  write to the store. \<open>returning\<close> is a processor that never raises.
\<close>

type_synonym option_processor = "heap \<Rightarrow> IasModelOptions \<Rightarrow> heap \<times> (error + IasModelOptions)"

definition returning ::
    "(heap \<Rightarrow> IasModelOptions \<Rightarrow> heap \<times> IasModelOptions) \<Rightarrow> option_processor" where
  "returning p h options = (let (h', new_options) = p h options in (h', Inr new_options))"

text \<open>The loop \<^verbatim>\<open>for processor in option_processors: options = processor(options)\<close>.\<close>

fun run_processors :: "option_processor list \<Rightarrow> option_processor" where
  "run_processors [] h options = (h, Inr options)"
| "run_processors (processor # rest) h options =
     (case processor h options of
        (h', Inl e) \<Rightarrow> (h', Inl e)
      | (h', Inr options') \<Rightarrow> run_processors rest h' options')"

text \<open>
  The loop over the stack descriptors: \<^verbatim>\<open>stack_info["id"]\<close> raises KeyError when the key
  is missing, \<^verbatim>\<open>stack_info.get("name", stack_id)\<close> falls back to the id, and
  \<^verbatim>\<open>stacks[stack_id] = stack\<close> writes the model's dictionary.
\<close>

fun build_stacks ::
    "Construct \<Rightarrow> Environment \<Rightarrow> (string \<times> string) list \<Rightarrow> StackInfoOptions list
      \<Rightarrow> (string \<times> Stack) list \<Rightarrow> error + (string \<times> Stack) list" where
  "build_stacks app' env tags' [] stacks' = Inr stacks'"
| "build_stacks app' env tags' (stack_info # rest) stacks' =
     (case stack_id stack_info of
        None \<Rightarrow> Inl (KeyError ''id'')
      | Some stack_id' \<Rightarrow>
          (let stack_name' = (case stack_name stack_info of None \<Rightarrow> stack_id' | Some n \<Rightarrow> n);
               stack = \<lparr>stack_app = app', construct_id = stack_id',
                         cdk_stack_name = stack_name', stack_env = env, stack_tags = []\<rparr>;
               stack = apply_stack_tags stack tags'
           in build_stacks app' env tags' rest (AList.update stack_id' stack stacks')))"

definition init_ias_model ::
    "option_processor list \<Rightarrow> heap \<Rightarrow> IasModelOptions \<Rightarrow> heap \<times> (error + IasModel)" where
  "init_ias_model option_processors h options =
     (case run_processors option_processors h options of
        (h', Inl e) \<Rightarrow> (h', Inl e)
      | (h', Inr options) \<Rightarrow>
          (case deployment_name options of
             None \<Rightarrow> (h', Inl (KeyError ''deployment_name''))
           | Some deployment_name' \<Rightarrow>
               (let env = (case environment options of
                             None \<Rightarrow> \<lparr>env_name = Some '''', account = None, region = None\<rparr>
                           | Some e \<Rightarrow> e)
                in case create_environment env of
                     Inl e \<Rightarrow> (h', Inl e)
                   | Inr current_env \<Rightarrow>
                       (let app' = Construct (case context_of h' options of
                                                None \<Rightarrow> [] | Some c \<Rightarrow> c) None;
                            stack_infos = (case stacks options of None \<Rightarrow> [] | Some ss \<Rightarrow> ss);
                            tags' = (case tags options of None \<Rightarrow> [] | Some ts \<Rightarrow> ts)
                        in case build_stacks app' (snd current_env) tags' stack_infos [] of
                             Inl e \<Rightarrow> (h', Inl e)
                           | Inr stacks' \<Rightarrow>
                               (h', Inr \<lparr>model_deployment_name = deployment_name', app = app',
                                         model_stacks = stacks',
                                         current_environment = current_env\<rparr>)))))"

text \<open>The default value of the parameter \<^verbatim>\<open>option_processors\<close>.\<close>

definition default_option_processors :: "environ \<Rightarrow> option_processor list" where
  "default_option_processors vars = [returning (simple_defaults vars)]"

section \<open>The specification's reading of a key path\<close>

text \<open>
  The value a key path names in nested context data, in the words of the specification:
  \<open>None\<close> when a key of the path is missing at any level, the nested value otherwise.
  \<open>dicts_along\<close> says that every value the path goes through before its last key is a
  dictionary or \<^verbatim>\<open>None\<close>. \<open>spec_scope_context\<close> is the mapping a scope sees: its own
  entries before those of the scopes around it.
\<close>

definition or_none :: "pyval option \<Rightarrow> pyval" where
  "or_none x = (case x of None \<Rightarrow> PNone | Some v \<Rightarrow> v)"

fun spec_nested_value :: "pyval \<Rightarrow> string list \<Rightarrow> pyval option" where
  "spec_nested_value v [] = Some v"
| "spec_nested_value v (k # ks) =
     (case v of
        PDict d \<Rightarrow> (case map_of d k of None \<Rightarrow> None | Some v' \<Rightarrow> spec_nested_value v' ks)
      | _ \<Rightarrow> None)"

fun dicts_along :: "pyval \<Rightarrow> string list \<Rightarrow> bool" where
  "dicts_along v [] = True"
| "dicts_along v (k # ks) =
     (case v of
        PNone \<Rightarrow> True
      | PDict d \<Rightarrow> (case map_of d k of None \<Rightarrow> True | Some v' \<Rightarrow> dicts_along v' ks)
      | _ \<Rightarrow> False)"

fun spec_scope_context :: "Construct \<Rightarrow> dict" where
  "spec_scope_context (Construct ctx outer) =
     ctx @ (case outer of None \<Rightarrow> [] | Some p \<Rightarrow> spec_scope_context p)"

section \<open>The specification's reading of the merged configuration\<close>

text \<open>
  The tables of the candidate files that exist, in the order of the candidates, and the
  value a key has in the first of a list of dictionaries that binds it.
\<close>

fun spec_existing_files :: "files \<Rightarrow> string list \<Rightarrow> dict list" where
  "spec_existing_files fs [] = []"
| "spec_existing_files fs (p # ps) =
     (case map_of fs p of
        Some (Toml d) \<Rightarrow> d # spec_existing_files fs ps
      | _ \<Rightarrow> spec_existing_files fs ps)"

fun spec_first_binding :: "dict list \<Rightarrow> string \<Rightarrow> pyval option" where
  "spec_first_binding [] k = None"
| "spec_first_binding (d # ds) k =
     (case map_of d k of Some v \<Rightarrow> Some v | None \<Rightarrow> spec_first_binding ds k)"

section \<open>Theorems\<close>

text \<open>
  C3. For every triple (prefix, id, env), \<open>make_stack_name\<close> returns the prefix when the id
  is "default" and the prefix is not empty; otherwise the id when the prefix is empty;
  otherwise prefix-id when the environment name is empty; otherwise prefix-id-env. The
  four inputs of the repository's test give "stackid", "test", "test-test2" and
  "test-test2-test3".
\<close>

theorem make_stack_name_four_branches:
  "(ident = ''default'' \<and> prefix \<noteq> '''' \<longrightarrow> make_stack_name prefix ident env = prefix)
   \<and> (\<not> (ident = ''default'' \<and> prefix \<noteq> '''') \<and> prefix = ''''
        \<longrightarrow> make_stack_name prefix ident env = ident)
   \<and> (\<not> (ident = ''default'' \<and> prefix \<noteq> '''') \<and> prefix \<noteq> '''' \<and> env = ''''
        \<longrightarrow> make_stack_name prefix ident env = prefix @ ''-'' @ ident)
   \<and> (\<not> (ident = ''default'' \<and> prefix \<noteq> '''') \<and> prefix \<noteq> '''' \<and> env \<noteq> ''''
        \<longrightarrow> make_stack_name prefix ident env = prefix @ ''-'' @ ident @ ''-'' @ env)
   \<and> make_stack_name '''' ''stackid'' '''' = ''stackid''
   \<and> make_stack_name ''test'' ''default'' '''' = ''test''
   \<and> make_stack_name ''test'' ''test2'' '''' = ''test-test2''
   \<and> make_stack_name ''test'' ''test2'' ''test3'' = ''test-test2-test3''"
  by (simp add: make_stack_name_def)

theorem make_stack_name_four_branches_witness:
  "make_stack_name ''app'' ''default'' ''dev'' = ''app''
   \<and> make_stack_name '''' ''default'' ''dev'' = ''default''
   \<and> make_stack_name ''app'' ''db'' '''' = ''app-db''
   \<and> make_stack_name ''app'' ''db'' ''dev'' = ''app-db-dev''"
  using make_stack_name_four_branches [of "''default''" "''app''" "''dev''"]
    make_stack_name_four_branches [of "''default''" "''''" "''dev''"]
    make_stack_name_four_branches [of "''db''" "''app''" "''''"]
    make_stack_name_four_branches [of "''db''" "''app''" "''dev''"]
  by simp

text \<open>
  C10. The accessor needs a key sequence that is not empty: with a list it reads
  \<^verbatim>\<open>key[0]\<close> first, so the empty list raises IndexError on every scope and does not give
  \<^verbatim>\<open>None\<close>.
\<close>

theorem get_context_data_empty_list:
  "get_context_data scope (Keys []) = Inl IndexError
   \<and> get_context_data scope (Keys []) \<noteq> Inr PNone"
  by (simp add: get_context_data_def)

lemma try_get_context_scope_context:
  "try_get_context scope k = dict_get (spec_scope_context scope) k"
  by (induction scope k rule: try_get_context.induct)
     (auto simp: dict_get_def map_add_def split: option.splits)

lemma get_context_loop_PNone: "get_context_loop PNone ks = Inr PNone"
  by (cases ks) simp_all

lemma get_context_loop_nested_value:
  "dicts_along v ks \<Longrightarrow> get_context_loop v ks = Inr (or_none (spec_nested_value v ks))"
proof (induction ks arbitrary: v)
  case Nil
  then show ?case by (simp add: or_none_def)
next
  case (Cons k ks)
  then show ?case
    by (cases v)
       (auto simp: or_none_def dict_get_def get_context_loop_PNone split: option.splits)
qed

text \<open>
  C4 (as amended). For every scope, a single key gives the value the scope's context has
  for it, or \<^verbatim>\<open>None\<close>; a key sequence that is not empty, along which every value that
  is read further is a dictionary or \<^verbatim>\<open>None\<close>, gives \<^verbatim>\<open>None\<close> when a key is missing at
  any level and the nested value otherwise. The path config2, subconfig1 gives
  "subvalue1" and the key config3 gives \<^verbatim>\<open>None\<close>.
\<close>

theorem get_context_data_nested_value:
  "get_context_data scope (Key k) = Inr (or_none (spec_nested_value (PDict (spec_scope_context scope)) [k]))
   \<and> (ks \<noteq> [] \<and> dicts_along (PDict (spec_scope_context scope)) ks
        \<longrightarrow> get_context_data scope (Keys ks)
              = Inr (or_none (spec_nested_value (PDict (spec_scope_context scope)) ks)))"
proof -
  have single: "get_context_data scope (Key k)
      = Inr (or_none (spec_nested_value (PDict (spec_scope_context scope)) [k]))"
    by (simp add: get_context_data_def try_get_context_scope_context dict_get_def or_none_def
          split: option.splits)
  have path: "get_context_data scope (Keys ks)
      = Inr (or_none (spec_nested_value (PDict (spec_scope_context scope)) ks))"
    if "ks \<noteq> []" "dicts_along (PDict (spec_scope_context scope)) ks"
  proof -
    from that(1) obtain k' ks' where ks: "ks = k' # ks'" by (cases ks) auto
    show ?thesis
    proof (cases "map_of (spec_scope_context scope) k'")
      case None
      then show ?thesis
        by (simp add: ks get_context_data_def try_get_context_scope_context dict_get_def
              get_context_loop_PNone or_none_def)
    next
      case (Some v)
      with that(2) have "dicts_along v ks'" by (simp add: ks)
      then show ?thesis
        using Some
        by (simp add: ks get_context_data_def try_get_context_scope_context dict_get_def
              get_context_loop_nested_value)
    qed
  qed
  from single path show ?thesis by blast
qed

theorem get_context_data_nested_value_witness:
  "get_context_data
     (Construct [] (Some (Construct [(''config1'', PStr ''value1''),
        (''config2'', PDict [(''subconfig1'', PStr ''subvalue1'')])] None)))
     (Keys [''config2'', ''subconfig1'']) = Inr (PStr ''subvalue1'')
   \<and> get_context_data
     (Construct [] (Some (Construct [(''config1'', PStr ''value1''),
        (''config2'', PDict [(''subconfig1'', PStr ''subvalue1'')])] None)))
     (Key ''config3'') = Inr PNone
   \<and> get_context_data
     (Construct [] (Some (Construct [(''config1'', PStr ''value1''),
        (''config2'', PDict [(''subconfig1'', PStr ''subvalue1'')])] None)))
     (Keys [''config3'', ''subconfig1'']) = Inr PNone"
  using get_context_data_nested_value [of
      "Construct [] (Some (Construct [(''config1'', PStr ''value1''),
        (''config2'', PDict [(''subconfig1'', PStr ''subvalue1'')])] None))"
      "''config3''" "[''config2'', ''subconfig1'']"]
    get_context_data_nested_value [of
      "Construct [] (Some (Construct [(''config1'', PStr ''value1''),
        (''config2'', PDict [(''subconfig1'', PStr ''subvalue1'')])] None))"
      "''config3''" "[''config3'', ''subconfig1'']"]
  by (simp add: or_none_def)

text \<open>
  C4 as stated fails where the path goes through a value that is not a dictionary: the
  key subconfig1 is missing under config1, whose value is a string, and the accessor
  raises AttributeError instead of giving \<^verbatim>\<open>None\<close>.
\<close>

theorem get_context_data_not_a_mapping:
  "get_context_data
     (Construct [(''config1'', PStr ''value1''),
        (''config2'', PDict [(''subconfig1'', PStr ''subvalue1'')])] None)
     (Keys [''config1'', ''subconfig1'']) = Inl AttributeError
   \<and> spec_nested_value (PDict [(''config1'', PStr ''value1''),
        (''config2'', PDict [(''subconfig1'', PStr ''subvalue1'')])])
        [''config1'', ''subconfig1''] = None"
  by (simp add: get_context_data_def)

subsection \<open>What a deep copy keeps\<close>

text \<open>
  A deep copy has the fields of its argument, and its context dictionary has the same
  items; the three processors of \<open>simple_defaults\<close> keep the deployment name.
\<close>

lemma deepcopy_fields:
  "deepcopy h options = (h', new_options) \<Longrightarrow>
     deployment_name new_options = deployment_name options
     \<and> stacks new_options = stacks options
     \<and> environment new_options = environment options
     \<and> tags new_options = tags options
     \<and> context_of h' new_options = context_of h options"
  by (auto simp: deepcopy_def new_dict_def context_of_def split: option.splits)

lemma set_env_deployment_name:
  assumes "set_env_account_region_from_env_vars vars h options = (h', new_options)"
  shows "deployment_name new_options = deployment_name options"
proof -
  obtain h1 o1 where dc: "deepcopy h options = (h1, o1)" by (cases "deepcopy h options")
  from deepcopy_fields [OF dc] have "deployment_name o1 = deployment_name options" by simp
  with assms show ?thesis
    by (auto simp: set_env_account_region_from_env_vars_def dc Let_def)
qed

lemma set_default_stack_deployment_name:
  assumes "set_default_stack_if_no_stacks h options = (h', new_options)"
  shows "deployment_name new_options = deployment_name options"
proof -
  obtain h1 o1 where dc: "deepcopy h options = (h1, o1)" by (cases "deepcopy h options")
  from deepcopy_fields [OF dc] have "deployment_name o1 = deployment_name options" by simp
  with assms show ?thesis
    by (auto simp: set_default_stack_if_no_stacks_def dc Let_def split: if_splits)
qed

lemma set_stack_names_deployment_name:
  assumes "set_stack_names h options = (h', new_options)"
  shows "deployment_name new_options = deployment_name options"
proof -
  obtain h1 o1 where dc: "deepcopy h options = (h1, o1)" by (cases "deepcopy h options")
  from deepcopy_fields [OF dc] have "deployment_name o1 = deployment_name options" by simp
  with assms show ?thesis
    by (auto simp: set_stack_names_def dc Let_def)
qed

lemma simple_defaults_deployment_name:
  assumes "simple_defaults vars h options = (h', new_options)"
  shows "deployment_name new_options = deployment_name options"
proof -
  obtain h1 o1 where s1: "set_env_account_region_from_env_vars vars h options = (h1, o1)"
    by (cases "set_env_account_region_from_env_vars vars h options")
  obtain h2 o2 where s2: "set_default_stack_if_no_stacks h1 o1 = (h2, o2)"
    by (cases "set_default_stack_if_no_stacks h1 o1")
  obtain h3 o3 where s3: "set_stack_names h2 o2 = (h3, o3)"
    by (cases "set_stack_names h2 o2")
  from assms s1 s2 s3 have "new_options = o3" by (simp add: simple_defaults_def)
  then show ?thesis
    using set_env_deployment_name [OF s1] set_default_stack_deployment_name [OF s2]
      set_stack_names_deployment_name [OF s3]
    by simp
qed

subsection \<open>The option processors\<close>

text \<open>
  C6. For every options record and every process environment, the processor
  \<open>set_env_account_region_from_env_vars\<close> keeps an account, a region and a name that the
  options' environment gives, whatever the variables hold; it takes the account from
  CDK_DEFAULT_ACCOUNT and the region from CDK_DEFAULT_REGION where the field is missing
  (or holds \<^verbatim>\<open>None\<close>), and the empty string for a missing name.
\<close>

theorem set_env_keeps_explicit_values:
  assumes "set_env_account_region_from_env_vars vars h options = (h', new_options)"
  shows "\<exists>env. environment new_options = Some env
     \<and> (account (get_environment options) = Some (Some a) \<longrightarrow> account env = Some (Some a))
     \<and> (region (get_environment options) = Some (Some r) \<longrightarrow> region env = Some (Some r))
     \<and> (env_name (get_environment options) = Some n \<longrightarrow> env_name env = Some n)
     \<and> (py_get (account (get_environment options)) = None
          \<longrightarrow> account env = Some (getenv vars ''CDK_DEFAULT_ACCOUNT''))
     \<and> (py_get (region (get_environment options)) = None
          \<longrightarrow> region env = Some (getenv vars ''CDK_DEFAULT_REGION''))
     \<and> (env_name (get_environment options) = None \<longrightarrow> env_name env = Some '''')"
proof -
  obtain h1 o1 where dc: "deepcopy h options = (h1, o1)" by (cases "deepcopy h options")
  from deepcopy_fields [OF dc] have env: "get_environment o1 = get_environment options"
    by (simp add: get_environment_def)
  show ?thesis
    using assms env
    by (auto simp: set_env_account_region_from_env_vars_def dc Let_def py_get_def)
qed

theorem set_env_keeps_explicit_values_witness:
  "environment (snd (set_env_account_region_from_env_vars
       [(''CDK_DEFAULT_ACCOUNT'', ''123456789012''), (''CDK_DEFAULT_REGION'', ''eu-north-0'')]
       empty_heap
       \<lparr>deployment_name = Some ''test'', stacks = None,
        environment = Some \<lparr>env_name = Some ''testenv'', account = Some (Some ''234567890123''),
                             region = Some (Some ''eu-north-1'')\<rparr>,
        context_ref = None, tags = None\<rparr>))
     = Some \<lparr>env_name = Some ''testenv'', account = Some (Some ''234567890123''),
              region = Some (Some ''eu-north-1'')\<rparr>
   \<and> environment (snd (set_env_account_region_from_env_vars
       [(''CDK_DEFAULT_ACCOUNT'', ''123456789012''), (''CDK_DEFAULT_REGION'', ''eu-north-0'')]
       empty_heap
       \<lparr>deployment_name = Some ''test'', stacks = None, environment = None,
        context_ref = None, tags = None\<rparr>))
     = Some \<lparr>env_name = Some '''', account = Some (Some ''123456789012''),
              region = Some (Some ''eu-north-0'')\<rparr>"
proof -
  let ?vars = "[(''CDK_DEFAULT_ACCOUNT'', ''123456789012''), (''CDK_DEFAULT_REGION'', ''eu-north-0'')]"
  let ?o1 = "\<lparr>deployment_name = Some ''test'', stacks = None,
        environment = Some \<lparr>env_name = Some ''testenv'', account = Some (Some ''234567890123''),
                             region = Some (Some ''eu-north-1'')\<rparr>,
        context_ref = None, tags = None\<rparr>"
  let ?o2 = "\<lparr>deployment_name = Some ''test'', stacks = None, environment = None,
        context_ref = None, tags = None\<rparr>"
  obtain h1 n1 where
    r1: "set_env_account_region_from_env_vars ?vars empty_heap ?o1 = (h1, n1)"
    by (cases "set_env_account_region_from_env_vars ?vars empty_heap ?o1")
  obtain h2 n2 where
    r2: "set_env_account_region_from_env_vars ?vars empty_heap ?o2 = (h2, n2)"
    by (cases "set_env_account_region_from_env_vars ?vars empty_heap ?o2")
  from set_env_keeps_explicit_values
         [OF r1, of "''234567890123''" "''eu-north-1''" "''testenv''"]
  obtain env1 where "environment n1 = Some env1"
    and "account env1 = Some (Some ''234567890123'')"
    and "region env1 = Some (Some ''eu-north-1'')"
    and "env_name env1 = Some ''testenv''"
    by (auto simp: get_environment_def)
  then have c1: "environment n1 = Some \<lparr>env_name = Some ''testenv'',
      account = Some (Some ''234567890123''), region = Some (Some ''eu-north-1'')\<rparr>"
    by simp
  from set_env_keeps_explicit_values [OF r2, of "''''" "''''" "''''"]
  obtain env2 where "environment n2 = Some env2"
    and "account env2 = Some (Some ''123456789012'')"
    and "region env2 = Some (Some ''eu-north-0'')"
    and "env_name env2 = Some ''''"
    by (auto simp: get_environment_def py_get_def getenv_def)
  then have c2: "environment n2 = Some \<lparr>env_name = Some '''',
      account = Some (Some ''123456789012''), region = Some (Some ''eu-north-0'')\<rparr>"
    by simp
  from c1 c2 show ?thesis by (simp add: r1 r2)
qed

text \<open>
  C7. For every options record whose stacks list is empty (or missing), the processor
  \<open>set_default_stack_if_no_stacks\<close> gives exactly one stack descriptor: id "default", the
  deployment name as its name (the empty string when the options have no deployment
  name) and an empty list of dependencies. A stacks list that is not empty is left as
  it is.
\<close>

theorem set_default_stack_injects_one:
  assumes "set_default_stack_if_no_stacks h options = (h', new_options)"
  shows "((stacks options = None \<or> stacks options = Some []) \<and> deployment_name options = Some d
            \<longrightarrow> stacks new_options
                  = Some [\<lparr>stack_id = Some ''default'', stack_name = Some d,
                           depends_on = Some []\<rparr>])
     \<and> ((stacks options = None \<or> stacks options = Some []) \<and> deployment_name options = None
            \<longrightarrow> stacks new_options
                  = Some [\<lparr>stack_id = Some ''default'', stack_name = Some '''',
                           depends_on = Some []\<rparr>])
     \<and> (stacks options = Some ss \<and> ss \<noteq> [] \<longrightarrow> stacks new_options = Some ss)"
proof -
  obtain h1 o1 where dc: "deepcopy h options = (h1, o1)" by (cases "deepcopy h options")
  from deepcopy_fields [OF dc]
  have f: "stacks o1 = stacks options" "deployment_name o1 = deployment_name options"
    by simp_all
  show ?thesis
    using assms f
    by (auto simp: set_default_stack_if_no_stacks_def dc get_deployment_name_def Let_def
          split: option.splits if_splits)
qed

theorem set_default_stack_injects_one_witness:
  "stacks (snd (set_default_stack_if_no_stacks empty_heap
       \<lparr>deployment_name = Some ''test'', stacks = None, environment = None,
        context_ref = None, tags = None\<rparr>))
     = Some [\<lparr>stack_id = Some ''default'', stack_name = Some ''test'', depends_on = Some []\<rparr>]
   \<and> stacks (snd (set_default_stack_if_no_stacks empty_heap
       \<lparr>deployment_name = None, stacks = Some [], environment = None,
        context_ref = None, tags = None\<rparr>))
     = Some [\<lparr>stack_id = Some ''default'', stack_name = Some '''', depends_on = Some []\<rparr>]
   \<and> stacks (snd (set_default_stack_if_no_stacks empty_heap
       \<lparr>deployment_name = Some ''test'',
        stacks = Some [\<lparr>stack_id = Some ''main'', stack_name = None, depends_on = None\<rparr>],
        environment = None, context_ref = None, tags = None\<rparr>))
     = Some [\<lparr>stack_id = Some ''main'', stack_name = None, depends_on = None\<rparr>]"
proof -
  let ?o1 = "\<lparr>deployment_name = Some ''test'', stacks = None, environment = None,
        context_ref = None, tags = None\<rparr>"
  let ?o3 = "\<lparr>deployment_name = None, stacks = Some [], environment = None,
        context_ref = None, tags = None\<rparr>"
  let ?s = "\<lparr>stack_id = Some ''main'', stack_name = None, depends_on = None\<rparr>"
  let ?o2 = "\<lparr>deployment_name = Some ''test'', stacks = Some [?s],
        environment = None, context_ref = None, tags = None\<rparr>"
  have a: "set_default_stack_if_no_stacks empty_heap ?o1
      = (fst (set_default_stack_if_no_stacks empty_heap ?o1),
         snd (set_default_stack_if_no_stacks empty_heap ?o1))" by simp
  have b: "set_default_stack_if_no_stacks empty_heap ?o2
      = (fst (set_default_stack_if_no_stacks empty_heap ?o2),
         snd (set_default_stack_if_no_stacks empty_heap ?o2))" by simp
  have c: "set_default_stack_if_no_stacks empty_heap ?o3
      = (fst (set_default_stack_if_no_stacks empty_heap ?o3),
         snd (set_default_stack_if_no_stacks empty_heap ?o3))" by simp
  from set_default_stack_injects_one [OF a, of "''test''" "[]"]
    set_default_stack_injects_one [OF b, of "''test''" "[?s]"]
    set_default_stack_injects_one [OF c, of "''test''" "[]"]
  show ?thesis by simp
qed

text \<open>
  C8. For every options record and every stack descriptor in it that has a name, the
  processor \<open>set_stack_names\<close> leaves the descriptor, and so its name, as it is.
\<close>

theorem set_stack_names_keeps_explicit_name:
  assumes "set_stack_names h options = (h', new_options)"
    and "stacks options = Some ss" and "i < length ss" and "stack_name (ss ! i) = Some n"
  shows "\<exists>ss'. stacks new_options = Some ss' \<and> length ss' = length ss \<and> ss' ! i = ss ! i
           \<and> stack_name (ss' ! i) = Some n"
proof -
  obtain h1 o1 where dc: "deepcopy h options = (h1, o1)" by (cases "deepcopy h options")
  from deepcopy_fields [OF dc] have f: "stacks o1 = stacks options" by simp
  show ?thesis
    using assms f
    by (auto simp: set_stack_names_def dc Let_def set_stack_name_def)
qed

theorem set_stack_names_keeps_explicit_name_witness:
  "\<exists>ss'. stacks (snd (set_stack_names empty_heap
       \<lparr>deployment_name = Some ''test'',
        stacks = Some [\<lparr>stack_id = Some ''test1'', stack_name = Some ''test1name'',
                        depends_on = None\<rparr>,
                       \<lparr>stack_id = Some ''test2'', stack_name = None, depends_on = None\<rparr>],
        environment = None, context_ref = None, tags = None\<rparr>)) = Some ss'
     \<and> length ss' = 2
     \<and> ss' ! 0 = \<lparr>stack_id = Some ''test1'', stack_name = Some ''test1name'', depends_on = None\<rparr>"
proof -
  let ?s1 = "\<lparr>stack_id = Some ''test1'', stack_name = Some ''test1name'', depends_on = None\<rparr>"
  let ?s2 = "\<lparr>stack_id = Some ''test2'', stack_name = None, depends_on = None\<rparr>"
  let ?o = "\<lparr>deployment_name = Some ''test'', stacks = Some [?s1, ?s2],
        environment = None, context_ref = None, tags = None\<rparr>"
  have a: "set_stack_names empty_heap ?o
      = (fst (set_stack_names empty_heap ?o), snd (set_stack_names empty_heap ?o))" by simp
  from set_stack_names_keeps_explicit_name [OF a, of "[?s1, ?s2]" 0 "''test1name''"]
  show ?thesis by auto
qed

subsection \<open>The model builder and the deployment name\<close>

text \<open>
  C2 (as amended). The option processors run first. When they have run and the options
  they give have no deployment name, \<open>init_ias_model\<close> raises KeyError for
  "deployment_name" and builds nothing; an error that a processor raises comes before
  that. After the default processors the deployment name is missing exactly when it was
  missing before, so with them a missing deployment name always ends in that KeyError.
\<close>

theorem init_ias_model_missing_deployment_name:
  "(run_processors ps h options = (h', Inr options') \<and> deployment_name options' = None
      \<longrightarrow> init_ias_model ps h options = (h', Inl (KeyError ''deployment_name'')))
   \<and> (run_processors ps h options = (h', Inl e) \<longrightarrow> init_ias_model ps h options = (h', Inl e))
   \<and> (deployment_name options = None
      \<longrightarrow> snd (init_ias_model (default_option_processors vars) h options)
            = Inl (KeyError ''deployment_name''))"
proof -
  have first: "init_ias_model ps h options = (h', Inl (KeyError ''deployment_name''))"
    if "run_processors ps h options = (h', Inr options')" "deployment_name options' = None"
    using that by (simp add: init_ias_model_def)
  have second: "init_ias_model ps h options = (h', Inl e)"
    if "run_processors ps h options = (h', Inl e)"
    using that by (simp add: init_ias_model_def)
  have third: "snd (init_ias_model (default_option_processors vars) h options)
      = Inl (KeyError ''deployment_name'')" if "deployment_name options = None"
  proof -
    obtain h1 o1 where sd: "simple_defaults vars h options = (h1, o1)"
      by (cases "simple_defaults vars h options")
    from simple_defaults_deployment_name [OF sd] that have "deployment_name o1 = None"
      by simp
    then show ?thesis
      by (simp add: init_ias_model_def default_option_processors_def returning_def sd)
  qed
  from first second third show ?thesis by blast
qed

theorem init_ias_model_missing_deployment_name_witness:
  "init_ias_model [] empty_heap
     \<lparr>deployment_name = None, stacks = None, environment = None, context_ref = None,
      tags = None\<rparr> = (empty_heap, Inl (KeyError ''deployment_name''))
   \<and> init_ias_model [load_toml_config_files [(''test.toml'', Malformed)]] empty_heap
     \<lparr>deployment_name = Some ''test'', stacks = None, environment = None, context_ref = None,
      tags = None\<rparr> = (fst (new_dict empty_heap []), Inl TOMLDecodeError)
   \<and> snd (init_ias_model (default_option_processors [(''CDK_DEFAULT_REGION'', ''eu-north-1'')])
       empty_heap
       \<lparr>deployment_name = None, stacks = None, environment = None, context_ref = None,
        tags = None\<rparr>) = Inl (KeyError ''deployment_name'')"
proof -
  let ?o = "\<lparr>deployment_name = None, stacks = None, environment = None, context_ref = None,
      tags = None\<rparr>"
  let ?o2 = "\<lparr>deployment_name = Some ''test'', stacks = None, environment = None,
      context_ref = None, tags = None\<rparr>"
  let ?h2 = "fst (new_dict empty_heap [])"
  have r1: "run_processors [] empty_heap ?o = (empty_heap, Inr ?o)" by simp
  have r2: "run_processors [load_toml_config_files [(''test.toml'', Malformed)]] empty_heap ?o2
      = (?h2, Inl TOMLDecodeError)"
    by (simp add: load_toml_config_files_def get_deployment_name_def get_env_name_def
          config_paths_of_def new_dict_def)
  have d: "deployment_name ?o = None" by simp
  from init_ias_model_missing_deployment_name
         [of "[]" empty_heap ?o empty_heap ?o TOMLDecodeError
           "[(''CDK_DEFAULT_REGION'', ''eu-north-1'')]"] r1 d
  have c1: "init_ias_model [] empty_heap ?o = (empty_heap, Inl (KeyError ''deployment_name''))"
    and c3: "snd (init_ias_model
        (default_option_processors [(''CDK_DEFAULT_REGION'', ''eu-north-1'')]) empty_heap ?o)
        = Inl (KeyError ''deployment_name'')"
    by blast+
  from init_ias_model_missing_deployment_name
         [of "[load_toml_config_files [(''test.toml'', Malformed)]]" empty_heap ?o2 ?h2 ?o
           TOMLDecodeError "[]"] r2
  have c2: "init_ias_model [load_toml_config_files [(''test.toml'', Malformed)]] empty_heap ?o2
      = (?h2, Inl TOMLDecodeError)"
    by blast
  from c1 c2 c3 show ?thesis by blast
qed

text \<open>
  C2 as stated fails: with \<open>load_toml_config_files\<close> as the processor, no deployment
  name, the environment name "dev" and a file dev.toml that does not parse, the error
  raised is the processor's TOMLDecodeError, so the processor ran before any check of the
  deployment name.
\<close>

theorem init_ias_model_runs_processors_first:
  "deployment_name \<lparr>deployment_name = None, stacks = None,
       environment = Some \<lparr>env_name = Some ''dev'', account = None, region = None\<rparr>,
       context_ref = None, tags = None\<rparr> = None
   \<and> snd (init_ias_model [load_toml_config_files [(''dev.toml'', Malformed)]] empty_heap
       \<lparr>deployment_name = None, stacks = None,
        environment = Some \<lparr>env_name = Some ''dev'', account = None, region = None\<rparr>,
        context_ref = None, tags = None\<rparr>) = Inl TOMLDecodeError"
  by (simp add: init_ias_model_def load_toml_config_files_def get_deployment_name_def
        get_env_name_def config_paths_of_def new_dict_def)

subsection \<open>Loading the configuration files\<close>

text \<open>
  Writes to one dictionary object, the loop over files that can all be read, and what
  \<^verbatim>\<open>update\<close> does to the value of a key.
\<close>

lemma put_dict_same: "put_dict h r (cells h r) = h"
  by (simp add: put_dict_def)

lemma put_dict_put_dict: "put_dict (put_dict h r d) r d' = put_dict h r d'"
  by (simp add: put_dict_def)

lemma cells_put_dict: "cells (put_dict h r d) r = d"
  by (simp add: put_dict_def)

lemma load_files_result:
  "\<forall>p \<in> set ps. map_of fs p \<noteq> Some Malformed \<and> map_of fs p \<noteq> Some Unreadable \<Longrightarrow>
   load_files fs ps h r
     = (put_dict h r (fold (\<lambda>d c. dict_update c d) (spec_existing_files fs ps) (cells h r)), None)"
proof (induction ps arbitrary: h)
  case Nil
  then show ?case by (simp add: put_dict_same)
next
  case (Cons p ps)
  show ?case
  proof (cases "map_of fs p")
    case None
    with Cons show ?thesis by simp
  next
    case (Some f)
    with Cons.prems obtain d where f: "f = Toml d" by (cases f) auto
    from Cons.prems have "\<forall>p \<in> set ps. map_of fs p \<noteq> Some Malformed \<and> map_of fs p \<noteq> Some Unreadable"
      by simp
    from Cons.IH [OF this] show ?thesis
      by (simp add: Some f put_dict_put_dict cells_put_dict)
  qed
qed

lemma map_of_fold_update:
  "distinct (map fst other) \<Longrightarrow>
   map_of (fold (\<lambda>(k, v). AList.update k v) other d) k
     = (case map_of other k of Some v \<Rightarrow> Some v | None \<Rightarrow> map_of d k)"
proof (induction other arbitrary: d)
  case Nil
  then show ?case by simp
next
  case (Cons kv other)
  obtain k' v' where kv: "kv = (k', v')" by (cases kv)
  from Cons.prems have d: "distinct (map fst other)" and notin: "k' \<notin> fst ` set other"
    by (simp_all add: kv)
  from notin have none: "map_of other k' = None" by (simp add: map_of_eq_None_iff)
  show ?case
    using Cons.IH [OF d, of "AList.update k' v' d"] none
    by (auto simp: kv AList.update_conv' split: option.splits)
qed

lemma map_of_dict_update:
  "distinct (map fst other) \<Longrightarrow>
   map_of (dict_update d other) k
     = (case map_of other k of Some v \<Rightarrow> Some v | None \<Rightarrow> map_of d k)"
  by (simp add: dict_update_def map_of_fold_update)

lemma first_binding_append:
  "spec_first_binding (xs @ ys) k
     = (case spec_first_binding xs k of Some v \<Rightarrow> Some v | None \<Rightarrow> spec_first_binding ys k)"
  by (induction xs) (auto split: option.splits)

lemma map_of_merged:
  "\<forall>d \<in> set ds. distinct (map fst d) \<Longrightarrow>
   map_of (fold (\<lambda>d c. dict_update c d) ds c0) k = spec_first_binding (rev (c0 # ds)) k"
proof (induction ds arbitrary: c0)
  case Nil
  then show ?case by (simp split: option.splits)
next
  case (Cons d ds)
  from Cons.prems have dd: "distinct (map fst d)" and rest: "\<forall>d \<in> set ds. distinct (map fst d)"
    by simp_all
  from Cons.IH [OF rest, of "dict_update c0 d"] show ?case
    by (simp add: first_binding_append map_of_dict_update [OF dd] split: option.splits)
qed

lemma existing_files_distinct:
  "\<forall>p d. map_of fs p = Some (Toml d) \<longrightarrow> distinct (map fst d) \<Longrightarrow>
   \<forall>d \<in> set (spec_existing_files fs ps). distinct (map fst d)"
  by (induction ps) (auto split: option.splits toml_file.splits)

lemma config_paths_of_order:
  "config_paths_of dn en
     = (if en \<noteq> '''' then [en @ ''.toml''] else [])
       @ (if dn \<noteq> '''' then [dn @ ''.toml''] else [])
       @ (if dn \<noteq> '''' \<and> en \<noteq> '''' then [dn @ ''-'' @ en @ ''.toml''] else [])"
  by (simp add: config_paths_of_def)

lemma load_toml_config_files_result:
  assumes "\<forall>p \<in> set (config_paths_of (get_deployment_name options) (get_env_name options)).
             map_of fs p \<noteq> Some Malformed \<and> map_of fs p \<noteq> Some Unreadable"
  shows "\<exists>h' new_options. load_toml_config_files fs h options = (h', Inr new_options)
           \<and> context_of h' new_options
               = Some (fold (\<lambda>d c. dict_update c d)
                   (spec_existing_files fs
                      (config_paths_of (get_deployment_name options) (get_env_name options)))
                   (case context_of h options of None \<Rightarrow> [] | Some c \<Rightarrow> c))"
proof (cases "context_ref options")
  case None
  show ?thesis
    by (simp add: load_toml_config_files_def Let_def None load_files_result [OF assms]
          new_dict_def deepcopy_def context_of_def put_dict_def)
next
  case (Some r)
  show ?thesis
    by (simp add: load_toml_config_files_def Let_def Some load_files_result [OF assms]
          new_dict_def deepcopy_def context_of_def put_dict_def)
qed

text \<open>
  C5. The candidate file names are, in this order, env.toml when the environment name is
  not empty, deployment.toml when the deployment name is not empty, and
  deployment-env.toml when both are not empty. When no candidate file is malformed or
  unreadable, \<open>load_toml_config_files\<close> returns options whose context is the options' context
  (empty when there is none) updated with the table of every candidate file that exists,
  in that order; a file that does not exist is skipped. Key by key, the value is the one
  of the last loaded file that has the key at its top level, and the one of the options'
  context when no file has it.
\<close>

theorem load_toml_config_files_merges_in_order:
  assumes "\<forall>p \<in> set (config_paths_of (get_deployment_name options) (get_env_name options)).
             map_of fs p \<noteq> Some Malformed \<and> map_of fs p \<noteq> Some Unreadable"
    and "\<forall>p d. map_of fs p = Some (Toml d) \<longrightarrow> distinct (map fst d)"
  shows "config_paths_of dn en
           = (if en \<noteq> '''' then [en @ ''.toml''] else [])
             @ (if dn \<noteq> '''' then [dn @ ''.toml''] else [])
             @ (if dn \<noteq> '''' \<and> en \<noteq> '''' then [dn @ ''-'' @ en @ ''.toml''] else [])
     \<and> (\<exists>h' new_options merged.
           load_toml_config_files fs h options = (h', Inr new_options)
           \<and> context_of h' new_options = Some merged
           \<and> merged
               = fold (\<lambda>d c. dict_update c d)
                   (spec_existing_files fs
                      (config_paths_of (get_deployment_name options) (get_env_name options)))
                   (case context_of h options of None \<Rightarrow> [] | Some c \<Rightarrow> c)
           \<and> (\<forall>k. map_of merged k
                  = spec_first_binding
                      (rev ((case context_of h options of None \<Rightarrow> [] | Some c \<Rightarrow> c)
                         # spec_existing_files fs
                             (config_paths_of (get_deployment_name options)
                                (get_env_name options)))) k))"
proof -
  let ?ps = "config_paths_of (get_deployment_name options) (get_env_name options)"
  let ?c0 = "case context_of h options of None \<Rightarrow> [] | Some c \<Rightarrow> c"
  from load_toml_config_files_result [OF assms(1)] obtain h' new_options where
    r: "load_toml_config_files fs h options = (h', Inr new_options)"
    and c: "context_of h' new_options
        = Some (fold (\<lambda>d c. dict_update c d) (spec_existing_files fs ?ps) ?c0)"
    by blast
  have m: "\<forall>k. map_of (fold (\<lambda>d c. dict_update c d) (spec_existing_files fs ?ps) ?c0) k
      = spec_first_binding (rev (?c0 # spec_existing_files fs ?ps)) k"
    using map_of_merged [OF existing_files_distinct [OF assms(2)]] by blast
  from r c m config_paths_of_order show ?thesis by blast
qed

theorem load_toml_config_files_merges_in_order_witness:
  "config_paths_of ''examples'' ''dev'' = [''dev.toml'', ''examples.toml'', ''examples-dev.toml'']
   \<and> config_paths_of ''examples'' '''' = [''examples.toml'']
   \<and> (\<exists>h' new_options.
         load_toml_config_files
           [(''dev.toml'', Toml [(''topic_name'', PStr ''from-dev''), (''retries'', PInt 3)]),
            (''examples-dev.toml'', Toml [(''topic_name'', PStr ''from-both'')])]
           (fst (new_dict empty_heap [(''config1'', PStr ''value1''),
                                      (''topic_name'', PStr ''initial'')]))
           \<lparr>deployment_name = Some ''examples'', stacks = None,
            environment = Some \<lparr>env_name = Some ''dev'', account = None, region = None\<rparr>,
            context_ref = Some 0, tags = None\<rparr>
           = (h', Inr new_options)
         \<and> context_of h' new_options
             = Some [(''config1'', PStr ''value1''), (''topic_name'', PStr ''from-both''),
                     (''retries'', PInt 3)])"
proof -
  let ?fs = "[(''dev.toml'', Toml [(''topic_name'', PStr ''from-dev''), (''retries'', PInt 3)]),
            (''examples-dev.toml'', Toml [(''topic_name'', PStr ''from-both'')])]"
  let ?h = "fst (new_dict empty_heap [(''config1'', PStr ''value1''),
                                      (''topic_name'', PStr ''initial'')])"
  let ?o = "\<lparr>deployment_name = Some ''examples'', stacks = None,
            environment = Some \<lparr>env_name = Some ''dev'', account = None, region = None\<rparr>,
            context_ref = Some 0, tags = None\<rparr>"
  have names: "get_deployment_name ?o = ''examples''" "get_env_name ?o = ''dev''"
    by (simp_all add: get_deployment_name_def get_env_name_def)
  have paths: "config_paths_of ''examples'' ''dev''
      = [''dev.toml'', ''examples.toml'', ''examples-dev.toml'']"
    by (simp add: config_paths_of_def)
  have readable: "\<forall>p \<in> set (config_paths_of (get_deployment_name ?o) (get_env_name ?o)).
      map_of ?fs p \<noteq> Some Malformed \<and> map_of ?fs p \<noteq> Some Unreadable"
    by (simp add: names paths)
  have tables: "\<forall>p d. map_of ?fs p = Some (Toml d) \<longrightarrow> distinct (map fst d)"
    by (auto split: if_splits)
  have c0: "context_of ?h ?o = Some [(''config1'', PStr ''value1''),
      (''topic_name'', PStr ''initial'')]"
    by (simp add: context_of_def new_dict_def empty_heap_def)
  from load_toml_config_files_merges_in_order [OF readable tables, of "''examples''" "''dev''" ?h]
  obtain h' new_options merged where
    r: "load_toml_config_files ?fs ?h ?o = (h', Inr new_options)"
    and c: "context_of h' new_options = Some merged"
    and m: "merged = fold (\<lambda>d c. dict_update c d)
        (spec_existing_files ?fs (config_paths_of (get_deployment_name ?o) (get_env_name ?o)))
        (case context_of ?h ?o of None \<Rightarrow> [] | Some c \<Rightarrow> c)"
    by blast
  from m have "merged = [(''config1'', PStr ''value1''), (''topic_name'', PStr ''from-both''),
      (''retries'', PInt 3)]"
    by (simp add: names paths c0 dict_update_def)
  with r c have "\<exists>h' new_options. load_toml_config_files ?fs ?h ?o = (h', Inr new_options)
      \<and> context_of h' new_options
          = Some [(''config1'', PStr ''value1''), (''topic_name'', PStr ''from-both''),
                  (''retries'', PInt 3)]"
    by blast
  moreover have "config_paths_of ''examples'' '''' = [''examples.toml'']"
    by (simp add: config_paths_of_def)
  ultimately show ?thesis using paths by blast
qed

subsection \<open>Stack names in the model\<close>

text \<open>
  The tags leave the name and the id of a stack alone; the loop over the descriptors
  keeps the entries of the ids it does not meet, and writes the entry of each id it meets.
\<close>

lemma apply_stack_tags_keeps:
  "cdk_stack_name (apply_stack_tags stack tags') = cdk_stack_name stack
   \<and> construct_id (apply_stack_tags stack tags') = construct_id stack"
  unfolding apply_stack_tags_def
  by (induction tags' arbitrary: stack) (auto split: prod.splits)

lemma build_stacks_keeps:
  "build_stacks a env t ss acc = Inr res \<Longrightarrow> Some k \<notin> stack_id ` set ss \<Longrightarrow>
   map_of res k = map_of acc k"
proof (induction ss arbitrary: acc)
  case Nil
  then show ?case by simp
next
  case (Cons s ss)
  from Cons.prems(1) obtain sid where sid: "stack_id s = Some sid"
    by (cases "stack_id s") auto
  from Cons.prems(2) sid have ne: "sid \<noteq> k" and rest: "Some k \<notin> stack_id ` set ss"
    by auto
  from Cons.prems(1) sid obtain st where
    "build_stacks a env t ss (AList.update sid st acc) = Inr res"
    by (simp add: Let_def)
  from Cons.IH [OF this rest] ne show ?case
    by (simp add: AList.update_conv')
qed

lemma build_stacks_entry:
  "build_stacks a env t ss acc = Inr res \<Longrightarrow> distinct (map stack_id ss) \<Longrightarrow>
   i < length ss \<Longrightarrow> stack_id (ss ! i) = Some sid \<Longrightarrow>
   \<exists>st. map_of res sid = Some st \<and> construct_id st = sid
      \<and> cdk_stack_name st = (case stack_name (ss ! i) of None \<Rightarrow> sid | Some n \<Rightarrow> n)"
proof (induction ss arbitrary: acc i)
  case Nil
  then show ?case by simp
next
  case (Cons s ss)
  from Cons.prems(1) obtain sid' where sid': "stack_id s = Some sid'"
    by (cases "stack_id s") auto
  let ?name = "case stack_name s of None \<Rightarrow> sid' | Some n \<Rightarrow> n"
  let ?st = "apply_stack_tags \<lparr>stack_app = a, construct_id = sid', cdk_stack_name = ?name,
      stack_env = env, stack_tags = []\<rparr> t"
  from Cons.prems(1) sid' have rest: "build_stacks a env t ss (AList.update sid' ?st acc) = Inr res"
    by (simp add: Let_def)
  from Cons.prems(2) have d: "distinct (map stack_id ss)" and notin: "stack_id s \<notin> stack_id ` set ss"
    by simp_all
  show ?case
  proof (cases i)
    case 0
    with Cons.prems(4) sid' have eq: "sid' = sid" by simp
    from notin sid' eq have "Some sid \<notin> stack_id ` set ss" by simp
    from build_stacks_keeps [OF rest this] have "map_of res sid = Some ?st"
      by (simp add: eq AList.update_conv')
    then show ?thesis
      using 0 eq by (simp add: apply_stack_tags_keeps split: option.splits)
  next
    case (Suc j)
    with Cons.prems(3,4) have "j < length ss" "stack_id (ss ! j) = Some sid" by simp_all
    from Cons.IH [OF rest d this] show ?thesis by (simp add: Suc)
  qed
qed

text \<open>
  C9. In \<open>init_ias_model\<close>, a stack descriptor that has no name when the model is built
  (after the processors have run; for example with an empty processor list) gives a stack
  whose name is its id, not the name derived from the deployment name. The ids of the
  descriptors are distinct, as the data model requires.
\<close>

theorem init_ias_model_name_falls_back_to_id:
  assumes "run_processors ps h options = (h', Inr options')"
    and "init_ias_model ps h options = (h'', Inr model)"
    and "stacks options' = Some ss" and "distinct (map stack_id ss)"
    and "i < length ss" and "stack_id (ss ! i) = Some sid" and "stack_name (ss ! i) = None"
  shows "\<exists>stack. map_of (model_stacks model) sid = Some stack
           \<and> construct_id stack = sid \<and> cdk_stack_name stack = sid"
proof -
  from assms(1,2,3) obtain a env t where
    b: "build_stacks a env t ss [] = Inr (model_stacks model)"
    by (auto simp: init_ias_model_def Let_def split: option.splits sum.splits)
  from build_stacks_entry [OF b assms(4,5,6)] assms(7) show ?thesis by simp
qed

theorem init_ias_model_name_falls_back_to_id_witness:
  "\<exists>model stack.
     snd (init_ias_model [] empty_heap
       \<lparr>deployment_name = Some ''test'',
        stacks = Some [\<lparr>stack_id = Some ''test2'', stack_name = None, depends_on = None\<rparr>],
        environment = None, context_ref = None, tags = None\<rparr>) = Inr model
     \<and> map_of (model_stacks model) ''test2'' = Some stack
     \<and> cdk_stack_name stack = ''test2''
     \<and> make_stack_name ''test'' ''test2'' '''' = ''test-test2''"
proof -
  let ?s = "\<lparr>stack_id = Some ''test2'', stack_name = None, depends_on = None\<rparr>"
  let ?o = "\<lparr>deployment_name = Some ''test'', stacks = Some [?s],
        environment = None, context_ref = None, tags = None\<rparr>"
  have r: "run_processors [] empty_heap ?o = (empty_heap, Inr ?o)" by simp
  obtain model where m: "init_ias_model [] empty_heap ?o = (empty_heap, Inr model)"
    by (simp add: init_ias_model_def create_environment_def context_of_def Let_def)
  from init_ias_model_name_falls_back_to_id [OF r m, of "[?s]" 0 "''test2''"]
  obtain stack where "map_of (model_stacks model) ''test2'' = Some stack"
    and "cdk_stack_name stack = ''test2''"
    by auto
  moreover have "make_stack_name ''test'' ''test2'' '''' = ''test-test2''"
    by (simp add: make_stack_name_def)
  ultimately show ?thesis using m by auto
qed

subsection \<open>The argument of a processor\<close>

text \<open>
  The three processors that copy first leave every dictionary that was in the store
  before the call as it was.
\<close>

lemma deepcopy_frame:
  "deepcopy h options = (h', new_options) \<Longrightarrow> r < lim h \<Longrightarrow> cells h' r = cells h r"
  by (auto simp: deepcopy_def new_dict_def split: option.splits)

lemma deepcopy_first_processors_keep_the_store:
  "(set_env_account_region_from_env_vars vars h options = (h', new_options) \<and> r < lim h
      \<longrightarrow> cells h' r = cells h r)
   \<and> (set_default_stack_if_no_stacks h options = (h', new_options) \<and> r < lim h
      \<longrightarrow> cells h' r = cells h r)
   \<and> (set_stack_names h options = (h', new_options) \<and> r < lim h
      \<longrightarrow> cells h' r = cells h r)"
proof -
  obtain h1 o1 where dc: "deepcopy h options = (h1, o1)" by (cases "deepcopy h options")
  have a: "cells h' r = cells h r"
    if "set_env_account_region_from_env_vars vars h options = (h', new_options)" "r < lim h"
    using that deepcopy_frame [OF dc that(2)]
    by (auto simp: set_env_account_region_from_env_vars_def dc Let_def)
  have b: "cells h' r = cells h r"
    if "set_default_stack_if_no_stacks h options = (h', new_options)" "r < lim h"
    using that deepcopy_frame [OF dc that(2)]
    by (auto simp: set_default_stack_if_no_stacks_def dc Let_def split: if_splits)
  have c: "cells h' r = cells h r"
    if "set_stack_names h options = (h', new_options)" "r < lim h"
    using that deepcopy_frame [OF dc that(2)]
    by (auto simp: set_stack_names_def dc Let_def)
  from a b c show ?thesis by blast
qed

text \<open>
  C1 fails for \<open>load_toml_config_files\<close>, which copies after the loop: with the options
  deployment_name "test" and context {config1: "value1"}, and a file test.toml holding
  config2 = "value2", the context dictionary of the argument holds both keys after the
  call.
\<close>

theorem load_toml_config_files_writes_argument:
  "context_of (fst (new_dict empty_heap [(''config1'', PStr ''value1'')]))
     \<lparr>deployment_name = Some ''test'', stacks = None, environment = None,
      context_ref = Some 0, tags = None\<rparr>
     = Some [(''config1'', PStr ''value1'')]
   \<and> context_of
       (fst (load_toml_config_files [(''test.toml'', Toml [(''config2'', PStr ''value2'')])]
          (fst (new_dict empty_heap [(''config1'', PStr ''value1'')]))
          \<lparr>deployment_name = Some ''test'', stacks = None, environment = None,
           context_ref = Some 0, tags = None\<rparr>))
       \<lparr>deployment_name = Some ''test'', stacks = None, environment = None,
        context_ref = Some 0, tags = None\<rparr>
     = Some [(''config1'', PStr ''value1''), (''config2'', PStr ''value2'')]"
  by (simp add: load_toml_config_files_def get_deployment_name_def get_env_name_def
        config_paths_of_def new_dict_def empty_heap_def put_dict_def dict_update_def
        deepcopy_def context_of_def)

end
